theory Spec2Isabelle
  imports Main "HOL-Library.Sublist"
begin

section \<open>Strings: the functions of Go's \<open>strings\<close> package that zfs.go calls\<close>

text \<open>
  A Go string is a sequence of bytes, here a \<^typ>\<open>string\<close>. The four library functions
  below are the ones zfs.go uses; each follows the documented behaviour of the Go function
  of the same name, at the arguments the source passes.
\<close>

definition HasPrefix :: "string \<Rightarrow> string \<Rightarrow> bool" where
  "HasPrefix s pre = (length pre \<le> length s \<and> take (length pre) s = pre)"

definition HasSuffix :: "string \<Rightarrow> string \<Rightarrow> bool" where
  "HasSuffix s suf = (length suf \<le> length s \<and> drop (length s - length suf) s = suf)"

text \<open>\<open>strings.Contains(s, substr)\<close>: some position of \<open>s\<close> starts a copy of \<open>substr\<close>.\<close>

fun Contains :: "string \<Rightarrow> string \<Rightarrow> bool" where
  "Contains [] substr = (substr = [])"
| "Contains (c # cs) substr = (HasPrefix (c # cs) substr \<or> Contains cs substr)"

text \<open>\<open>strings.TrimRight(s, cutset)\<close>: \<open>s\<close> without its trailing bytes that are in \<open>cutset\<close>.\<close>

definition TrimRight :: "string \<Rightarrow> string \<Rightarrow> string" where
  "TrimRight s cutset = rev (dropWhile (\<lambda>c. c \<in> set cutset) (rev s))"

text \<open>
  \<open>strings.Split(s, sep)\<close> for a one-byte separator (zfs.go only splits at the line feed):
  the pieces between the separators, of which there is always at least one.
\<close>

fun Split :: "string \<Rightarrow> char \<Rightarrow> string list" where
  "Split [] sep = [[]]"
| "Split (c # cs) sep =
     (if c = sep then [] # Split cs sep
      else (case Split cs sep of [] \<Rightarrow> [[c]] | piece # pieces \<Rightarrow> (c # piece) # pieces))"

abbreviation LF :: char where
  "LF \<equiv> CHR 0x0A"

section \<open>The package's variables\<close>

text \<open>
  \<open>FS\<close>, \<open>SNAP\<close> and \<open>DATANOE\<close> are declared with \<open>var\<close> and never assigned in
  zfs.go: they are the constants they are initialised to.
\<close>

definition FS :: string where
  "FS = ''filesystem''"

definition SNAP :: string where
  "SNAP = ''snapshot''"

definition DATANOE :: string where
  "DATANOE = ''dataset does not exist''"

section \<open>The command runner\<close>

text \<open>
  zfs.go runs every command through \<open>runcmd.Runner\<close>, a package outside this repository.
  The runner is therefore a parameter of the model: a record of the methods the source
  calls, each a function of the world (the storage pool, the processes, whatever the runner
  touches) that returns the call's result and the world after it.

  An \<open>error\<close> value is known by its text, \<open>err.Error()\<close>; \<open>nil\<close> is \<open>None\<close>.
  A \<open>CmdWorker\<close> is known by the command line it was made for, the program name first.
  A pipe is known by the worker it belongs to.

  \<open>run\<close> is \<open>c.Run()\<close> with the standard output collected in a buffer, as every caller
  but one sets it up: it returns the error and the bytes written. The write of
  \<open>SetProperty\<close> runs without a buffer; there the model makes the same call and drops
  the bytes. \<open>ioCopy\<close> is \<open>io.Copy\<close> between two pipes, of which the code keeps the
  error only.
\<close>

datatype error = Error string

fun ErrorText :: "error \<Rightarrow> string" where
  "ErrorText (Error txt) = txt"

type_synonym CmdWorker = "string list"

record 'w Runner =
  cmdError :: "CmdWorker \<Rightarrow> 'w \<Rightarrow> error option \<times> 'w"
  run :: "CmdWorker \<Rightarrow> 'w \<Rightarrow> (error option \<times> string) \<times> 'w"
  start :: "CmdWorker \<Rightarrow> 'w \<Rightarrow> error option \<times> 'w"
  stdoutPipe :: "CmdWorker \<Rightarrow> 'w \<Rightarrow> error option \<times> 'w"
  stdinPipe :: "CmdWorker \<Rightarrow> 'w \<Rightarrow> error option \<times> 'w"
  ioCopy :: "CmdWorker \<Rightarrow> CmdWorker \<Rightarrow> 'w \<Rightarrow> error option \<times> 'w"

text \<open>
  The calls the model makes are logged, in order, beside the world: \<open>EvCommand c\<close> is
  \<open>this.Command(c...)\<close> with its \<open>CmdError()\<close>, \<open>EvRun c\<close> is \<open>c.Run()\<close>,
  \<open>EvStart c\<close> is \<open>c.Start()\<close>, \<open>EvStdoutPipe c\<close> and \<open>EvStdinPipe c\<close> are the
  pipe acquisitions and \<open>EvCopy dst src\<close> is \<open>io.Copy\<close> from the standard output of
  \<open>src\<close> into the standard input of \<open>dst\<close>.
\<close>

datatype event =
    EvCommand CmdWorker
  | EvRun CmdWorker
  | EvStart CmdWorker
  | EvStdoutPipe CmdWorker
  | EvStdinPipe CmdWorker
  | EvCopy CmdWorker CmdWorker

record 'w state =
  world :: 'w
  trace :: "event list"

definition Command :: "'w Runner \<Rightarrow> CmdWorker \<Rightarrow> 'w state \<Rightarrow> error option \<times> 'w state" where
  "Command r c s =
     (case cmdError r c (world s) of
        (err, w) \<Rightarrow> (err, \<lparr>world = w, trace = trace s @ [EvCommand c]\<rparr>))"

definition Run :: "'w Runner \<Rightarrow> CmdWorker \<Rightarrow> 'w state \<Rightarrow> (error option \<times> string) \<times> 'w state" where
  "Run r c s =
     (case run r c (world s) of
        (res, w) \<Rightarrow> (res, \<lparr>world = w, trace = trace s @ [EvRun c]\<rparr>))"

definition Start :: "'w Runner \<Rightarrow> CmdWorker \<Rightarrow> 'w state \<Rightarrow> error option \<times> 'w state" where
  "Start r c s =
     (case start r c (world s) of
        (err, w) \<Rightarrow> (err, \<lparr>world = w, trace = trace s @ [EvStart c]\<rparr>))"

definition StdoutPipe :: "'w Runner \<Rightarrow> CmdWorker \<Rightarrow> 'w state \<Rightarrow> error option \<times> 'w state" where
  "StdoutPipe r c s =
     (case stdoutPipe r c (world s) of
        (err, w) \<Rightarrow> (err, \<lparr>world = w, trace = trace s @ [EvStdoutPipe c]\<rparr>))"

definition StdinPipe :: "'w Runner \<Rightarrow> CmdWorker \<Rightarrow> 'w state \<Rightarrow> error option \<times> 'w state" where
  "StdinPipe r c s =
     (case stdinPipe r c (world s) of
        (err, w) \<Rightarrow> (err, \<lparr>world = w, trace = trace s @ [EvStdinPipe c]\<rparr>))"

definition Copy :: "'w Runner \<Rightarrow> CmdWorker \<Rightarrow> CmdWorker \<Rightarrow> 'w state \<Rightarrow> error option \<times> 'w state" where
  "Copy r dst src s =
     (case ioCopy r dst src (world s) of
        (err, w) \<Rightarrow> (err, \<lparr>world = w, trace = trace s @ [EvCopy dst src]\<rparr>))"

section \<open>Property and SetProperty\<close>

text \<open>
  A Go function returning \<open>(T, error)\<close> returns a pair here, with the state after the call:
  both components are always there, as in Go.
\<close>

definition Property :: "'w Runner \<Rightarrow> string \<Rightarrow> string \<Rightarrow> 'w state \<Rightarrow> (string \<times> error option) \<times> 'w state" where
  "Property r fs property s =
     (let c = [''zfs'', ''get'', ''-Ho'', ''value'', property, fs] in
      case Command r c s of
        (Some err, s1) \<Rightarrow> (('''', Some err), s1)
      | (None, s1) \<Rightarrow>
          (case Run r c s1 of
             ((Some err, stdout), s2) \<Rightarrow> (('''', Some err), s2)
           | ((None, stdout), s2) \<Rightarrow> ((stdout, None), s2)))"

definition SetProperty :: "'w Runner \<Rightarrow> string \<Rightarrow> string \<Rightarrow> string \<Rightarrow> 'w state \<Rightarrow> error option \<times> 'w state" where
  "SetProperty r fs property val s =
     (let c = [''zfs'', ''set'', property @ ''='' @ val, fs] in
      case Command r c s of
        (Some err, s1) \<Rightarrow> (Some err, s1)
      | (None, s1) \<Rightarrow>
          (case Run r c s1 of
             ((Some err, stdout), s2) \<Rightarrow> (Some err, s2)
           | ((None, stdout), s2) \<Rightarrow>
               (case Property r fs property s2 of
                  ((out, Some err), s3) \<Rightarrow> (Some err, s3)
                | ((out, None), s3) \<Rightarrow>
                    (if out \<noteq> val then (Some (Error (''cannot set property: '' @ property)), s3)
                     else (None, s3)))))"

section \<open>List, ExistFs and ExistSnap\<close>

text \<open>
  \<open>List\<close> calls itself once for a pattern that ends in \<open>*\<close>, with the empty target, which
  does not end in \<open>*\<close>: the measure below is that fact. A \<open>nil\<close> slice is the empty list.
\<close>

function List :: "'w Runner \<Rightarrow> string \<Rightarrow> string \<Rightarrow> bool \<Rightarrow> 'w state \<Rightarrow> (string list \<times> error option) \<times> 'w state" where
  "List r fs fsType recursive s =
     (if HasSuffix fs ''*'' then
        (case List r '''' FS False s of
           ((out, Some err), s1) \<Rightarrow> (([], Some err), s1)
         | ((out, None), s1) \<Rightarrow>
             ((filter (\<lambda>next. Contains next (TrimRight fs ''*'')) out, None), s1))
      else
        (let args0 = [''list'', ''-Ho'', ''name'', ''-t'', fsType, fs];
             args1 = (if recursive then [''list'', ''-Ho'', ''name'', ''-t'', fsType, ''-r'', fs] else args0);
             len = length args1;
             args = (if fs = '''' then take (len - 1) args1 else args1);
             c = ''zfs'' # args
         in case Command r c s of
              (Some err, s1) \<Rightarrow> (([], Some err), s1)
            | (None, s1) \<Rightarrow>
                (case Run r c s1 of
                   ((Some err, stdout), s2) \<Rightarrow> (([], Some err), s2)
                 | ((None, stdout), s2) \<Rightarrow>
                     (let out = Split stdout LF;
                          len = length out;
                          out' = (if len > 1 then (if out ! (len - 1) = '''' then take (len - 1) out else out) else out)
                      in ((out', None), s2)))))"
  by pat_completeness auto
termination
  by (relation "measure (\<lambda>(r, fs, fsType, recursive, s). if HasSuffix fs ''*'' then 1 else 0)")
     (auto simp: HasSuffix_def)

declare List.simps [simp del]

definition ExistFs :: "'w Runner \<Rightarrow> string \<Rightarrow> 'w state \<Rightarrow> (bool \<times> error option) \<times> 'w state" where
  "ExistFs r fs s =
     (case List r fs FS False s of
        ((out, Some err), s1) \<Rightarrow>
          (if Contains (ErrorText err) DATANOE then ((False, None), s1)
           else ((False, Some err), s1))
      | ((out, None), s1) \<Rightarrow> ((True, None), s1))"

definition ExistSnap :: "'w Runner \<Rightarrow> string \<Rightarrow> string \<Rightarrow> 'w state \<Rightarrow> (bool \<times> error option) \<times> 'w state" where
  "ExistSnap r fs snap s =
     (case List r (fs @ ''@'' @ snap) SNAP False s of
        ((out, Some err), s1) \<Rightarrow>
          (if Contains (ErrorText err) DATANOE then ((False, None), s1)
           else ((False, Some err), s1))
      | ((out, None), s1) \<Rightarrow> ((True, None), s1))"

section \<open>RecentSnap\<close>

text \<open>
  The \<open>for\<close> loop of \<open>RecentSnap\<close> over the lines of the listing: every \<open>return\<close> of the
  loop body ends the recursion, \<open>continue\<close> is the recursive call, and running out of lines
  is the \<open>return "", nil\<close> after the loop.
\<close>

fun RecentSnap_loop :: "'w Runner \<Rightarrow> string \<Rightarrow> string list \<Rightarrow> 'w state \<Rightarrow> (string \<times> error option) \<times> 'w state" where
  "RecentSnap_loop r property [] s = (('''', None), s)"
| "RecentSnap_loop r property (snap # rest) s =
     (if property \<noteq> '''' then
        (case Property r snap property s of
           ((out, Some err), s1) \<Rightarrow> (('''', None), s1)
         | ((out, None), s1) \<Rightarrow>
             (if out = ''true'' then ((snap, None), s1)
              else RecentSnap_loop r property rest s1))
      else ((snap, None), s))"

definition RecentSnap :: "'w Runner \<Rightarrow> string \<Rightarrow> string \<Rightarrow> 'w state \<Rightarrow> (string \<times> error option) \<times> 'w state" where
  "RecentSnap r snap property s =
     (let c = [''zfs'', ''list'', ''-Hro'', ''name'', ''-t'', ''snapshot'', ''-S'', ''creation'', snap] in
      case Command r c s of
        (Some err, s1) \<Rightarrow> (('''', Some err), s1)
      | (None, s1) \<Rightarrow>
          (case Run r c s1 of
             ((Some err, stdout), s2) \<Rightarrow> (('''', Some err), s2)
           | ((None, stdout), s2) \<Rightarrow> RecentSnap_loop r property (Split stdout LF) s2))"

section \<open>RecvSnap and SendSnap\<close>

text \<open>
  Both return \<open>(runcmd.CmdWorker, error)\<close>: the handle is \<open>None\<close> for \<open>nil\<close>, and the two
  components are independent, since \<open>SendSnap\<close> can return a handle and an error together.
\<close>

definition RecvSnap :: "'w Runner \<Rightarrow> string \<Rightarrow> string \<Rightarrow> 'w state \<Rightarrow> (CmdWorker option \<times> error option) \<times> 'w state" where
  "RecvSnap r fs snap s =
     (let c = [''zfs'', ''recv'', fs @ ''@'' @ snap] in
      case Command r c s of
        (Some err, s1) \<Rightarrow> ((None, Some err), s1)
      | (None, s1) \<Rightarrow>
          (case Start r c s1 of
             (err, s2) \<Rightarrow> ((Some c, None), s2)))"

definition SendSnap_args :: "string \<Rightarrow> string \<Rightarrow> string \<Rightarrow> string list" where
  "SendSnap_args fs snapOld snapNew =
     (let args = [''send'', ''-i'', fs @ ''@'' @ snapOld, fs @ ''@'' @ snapNew]
      in if snapNew = '''' then [''send'', fs @ ''@'' @ snapOld] else args)"

definition SendSnap :: "'w Runner \<Rightarrow> string \<Rightarrow> string \<Rightarrow> string \<Rightarrow> CmdWorker \<Rightarrow> 'w state \<Rightarrow> (CmdWorker option \<times> error option) \<times> 'w state" where
  "SendSnap r fs snapOld snapNew cw s =
     (let sendWorker = ''zfs'' # SendSnap_args fs snapOld snapNew in
      case Command r sendWorker s of
        (Some err, s1) \<Rightarrow> ((None, Some err), s1)
      | (None, s1) \<Rightarrow>
          (case StdoutPipe r sendWorker s1 of
             (Some err, s2) \<Rightarrow> ((None, Some err), s2)
           | (None, s2) \<Rightarrow>
               (case StdinPipe r cw s2 of
                  (Some err, s3) \<Rightarrow> ((None, Some err), s3)
                | (None, s3) \<Rightarrow>
                    (case Start r sendWorker s3 of
                       (Some err, s4) \<Rightarrow> ((None, Some err), s4)
                     | (None, s4) \<Rightarrow>
                         (case Copy r cw sendWorker s4 of
                            (err, s5) \<Rightarrow> ((Some sendWorker, err), s5))))))"

section \<open>Vocabulary for the properties\<close>

text \<open>The calls logged between a state and a later one.\<close>

definition new_events :: "'w state \<Rightarrow> 'w state \<Rightarrow> event list" where
  "new_events s s' = drop (length (trace s)) (trace s')"

text \<open>
  The argument list \<open>List\<close> builds for a target that does not end in \<open>*\<close>, and the lines
  it returns for an output, both in closed form (\<open>List_plain\<close> below proves that they are
  what the code computes).
\<close>

definition List_args :: "string \<Rightarrow> string \<Rightarrow> bool \<Rightarrow> string list" where
  "List_args fs fsType recursive =
     [''list'', ''-Ho'', ''name'', ''-t'', fsType] @ (if recursive then [''-r''] else []) @
     (if fs = '''' then [] else [fs])"

definition List_lines :: "string \<Rightarrow> string list" where
  "List_lines stdout =
     (let out = Split stdout LF in if 1 < length out \<and> last out = '''' then butlast out else out)"

text \<open>
  The specification's reading of two operations, in its own words, to compare the code with:
  a value is trimmed when the white space at both its ends is removed, and the scan for the
  most recent snapshot skips a candidate whose property read fails and goes on.
\<close>

definition isSpace :: "char \<Rightarrow> bool" where
  "isSpace c = (c \<in> set [CHR 0x09, CHR 0x0A, CHR 0x0B, CHR 0x0C, CHR 0x0D, CHR '' ''])"

definition spec_trimmed :: "string \<Rightarrow> string" where
  "spec_trimmed v = rev (dropWhile isSpace (rev (dropWhile isSpace v)))"

fun spec_mostRecent_loop :: "'w Runner \<Rightarrow> string \<Rightarrow> string list \<Rightarrow> 'w state \<Rightarrow> (string \<times> error option) \<times> 'w state" where
  "spec_mostRecent_loop r property [] s = (('''', None), s)"
| "spec_mostRecent_loop r property (snap # rest) s =
     (if property \<noteq> '''' then
        (case Property r snap property s of
           ((out, Some err), s1) \<Rightarrow> spec_mostRecent_loop r property rest s1
         | ((out, None), s1) \<Rightarrow>
             (if out = ''true'' then ((snap, None), s1)
              else spec_mostRecent_loop r property rest s1))
      else ((snap, None), s))"

text \<open>
  The results of reading the property of every candidate in turn, each read made in the
  state the one before it left; the reads at the head of such a list that succeeded with a
  value other than \<open>true\<close>, which are the ones a scan goes past; and the state that reading
  the candidates of a list in turn leaves.
\<close>

fun read_all :: "'w Runner \<Rightarrow> string \<Rightarrow> string list \<Rightarrow> 'w state \<Rightarrow> (string \<times> error option) list" where
  "read_all r property [] s = []"
| "read_all r property (snap # rest) s =
     (case Property r snap property s of (res, s1) \<Rightarrow> res # read_all r property rest s1)"

definition unmatched_reads :: "(string \<times> error option) list \<Rightarrow> (string \<times> error option) list" where
  "unmatched_reads vals = takeWhile (\<lambda>v. snd v = None \<and> fst v \<noteq> ''true'') vals"

fun state_after_reads :: "'w Runner \<Rightarrow> string \<Rightarrow> string list \<Rightarrow> 'w state \<Rightarrow> 'w state" where
  "state_after_reads r property [] s = s"
| "state_after_reads r property (snap # rest) s =
     state_after_reads r property rest (snd (Property r snap property s))"

text \<open>
  The command line of the one listing an existence check runs for a target and a kind: for a
  target that ends in \<open>*\<close> it is the listing of all file systems, whatever the kind.
\<close>

definition Exist_listing :: "string \<Rightarrow> string \<Rightarrow> CmdWorker" where
  "Exist_listing target kind =
     (if HasSuffix target ''*'' then [''zfs'', ''list'', ''-Ho'', ''name'', ''-t'', ''filesystem'']
      else [''zfs'', ''list'', ''-Ho'', ''name'', ''-t'', kind] @ (if target = '''' then [] else [target]))"

section \<open>Concrete runners\<close>

text \<open>
  Runners to evaluate the functions on. \<open>scripted\<close> has no world of its own: each method
  answers from a table. \<open>propRunner\<close> keeps the value of one property as its world;
  \<open>propRunner True\<close> applies a \<open>set\<close>, \<open>propRunner False\<close> reports success and leaves
  the value as it was. Both answer a \<open>get\<close> with the bare value; \<open>lineRunner\<close>,
  \<open>onRunner\<close> and \<open>lineSnapRunner\<close> end the value with a line feed, as a tool that prints
  a line does.
\<close>

definition scripted :: "(CmdWorker \<Rightarrow> error option) \<Rightarrow> (CmdWorker \<Rightarrow> error option \<times> string) \<Rightarrow>
    (CmdWorker \<Rightarrow> error option) \<Rightarrow> (CmdWorker \<Rightarrow> error option) \<Rightarrow> (CmdWorker \<Rightarrow> error option) \<Rightarrow>
    error option \<Rightarrow> unit Runner" where
  "scripted cmdE tbl startE outE inE copyE =
     \<lparr>cmdError = (\<lambda>c w. (cmdE c, w)),
      run = (\<lambda>c w. (tbl c, w)),
      start = (\<lambda>c w. (startE c, w)),
      stdoutPipe = (\<lambda>c w. (outE c, w)),
      stdinPipe = (\<lambda>c w. (inE c, w)),
      ioCopy = (\<lambda>dst src w. (copyE, w))\<rparr>"

definition noError :: "CmdWorker \<Rightarrow> error option" where
  "noError c = None"

definition noOutput :: "CmdWorker \<Rightarrow> error option \<times> string" where
  "noOutput c = (None, '''')"

definition s0 :: "unit state" where
  "s0 = \<lparr>world = (), trace = []\<rparr>"

definition propRunner :: "bool \<Rightarrow> string Runner" where
  "propRunner applies =
     \<lparr>cmdError = (\<lambda>c w. (None, w)),
      run = (\<lambda>c w.
        if take 2 c = [''zfs'', ''set''] then
          ((None, ''''), if applies then drop 1 (dropWhile (\<lambda>x. x \<noteq> CHR ''='') (c ! 2)) else w)
        else if take 2 c = [''zfs'', ''get''] then ((None, w), w)
        else ((Some (Error ''exit status 2''), ''''), w)),
      start = (\<lambda>c w. (None, w)),
      stdoutPipe = (\<lambda>c w. (None, w)),
      stdinPipe = (\<lambda>c w. (None, w)),
      ioCopy = (\<lambda>dst src w. (None, w))\<rparr>"

definition failingStart :: "unit Runner" where
  "failingStart = scripted noError noOutput (\<lambda>c. Some (Error ''exec: no command'')) noError noError None"

definition brokenPipe :: "unit Runner" where
  "brokenPipe = scripted noError noOutput noError noError noError (Some (Error ''write: broken pipe''))"

definition missingBinary :: "unit Runner" where
  "missingBinary =
     scripted (\<lambda>c. Some (Error ''exec: zfs: executable file not found'')) noOutput noError noError noError None"

definition noStdout :: "unit Runner" where
  "noStdout = scripted noError noOutput noError (\<lambda>c. Some (Error ''exec: Stdout already set'')) noError None"

definition noStdin :: "unit Runner" where
  "noStdin = scripted noError noOutput noError noError (\<lambda>c. Some (Error ''exec: Stdin already set'')) None"

definition allFine :: "unit Runner" where
  "allFine = scripted noError noOutput noError noError noError None"

definition onRunner :: "unit Runner" where
  "onRunner = scripted noError (\<lambda>c. (None, ''on'' @ [LF])) noError noError noError None"

definition poolRunner :: "unit Runner" where
  "poolRunner =
     scripted noError
       (\<lambda>c. if c = [''zfs'', ''list'', ''-Ho'', ''name'', ''-t'', ''filesystem''] then
                (None, ''pool'' @ [LF] @ ''pool/a'' @ [LF] @ ''pool/ab'' @ [LF] @ ''tank'' @ [LF])
             else if c = [''zfs'', ''list'', ''-Ho'', ''name'', ''-t'', ''filesystem'', ''pool/a''] then
                (None, ''pool/a'' @ [LF])
             else if c = [''zfs'', ''list'', ''-Ho'', ''name'', ''-t'', ''filesystem'', ''pool/locked''] then
                (Some (Error ''cannot open pool/locked: permission denied''), '''')
             else if c = [''zfs'', ''list'', ''-Hro'', ''name'', ''-t'', ''snapshot'', ''-S'', ''creation'', ''pool/a@''] then
                (None, ''pool/a@s2'' @ [LF] @ ''pool/a@s1'' @ [LF])
             else if c = [''zfs'', ''get'', ''-Ho'', ''value'', ''autobackup'', ''pool/a@s1''] then
                (None, ''true'')
             else if take 2 c = [''zfs'', ''list''] then
                (Some (Error ''cannot open: dataset does not exist''), '''')
             else (Some (Error ''exit status 1''), ''''))
       noError noError noError None"

definition keepRunner :: "unit Runner" where
  "keepRunner =
     scripted noError
       (\<lambda>c. if c = [''zfs'', ''list'', ''-Hro'', ''name'', ''-t'', ''snapshot'', ''-S'', ''creation'', ''pool/a@''] then
                (None, ''pool/a@s2'' @ [LF] @ ''pool/a@s1'' @ [LF])
             else if c = [''zfs'', ''get'', ''-Ho'', ''value'', ''autobackup'', ''pool/a@s2''] then
                (None, ''-'')
             else if c = [''zfs'', ''get'', ''-Ho'', ''value'', ''autobackup'', ''pool/a@s1''] then
                (None, ''true'')
             else (Some (Error ''exit status 1''), ''''))
       noError noError noError None"

definition dashRunner :: "unit Runner" where
  "dashRunner =
     scripted noError
       (\<lambda>c. if take 2 c = [''zfs'', ''list''] then (None, ''pool/a@s2'' @ [LF] @ ''pool/a@s1'')
             else (None, ''-''))
       noError noError noError None"

definition lineRunner :: "string Runner" where
  "lineRunner =
     \<lparr>cmdError = (\<lambda>c w. (None, w)),
      run = (\<lambda>c w.
        if take 2 c = [''zfs'', ''set''] then
          ((None, ''''), drop 1 (dropWhile (\<lambda>x. x \<noteq> CHR ''='') (c ! 2)))
        else if take 2 c = [''zfs'', ''get''] then ((None, w @ [LF]), w)
        else ((Some (Error ''exit status 2''), ''''), w)),
      start = (\<lambda>c w. (None, w)),
      stdoutPipe = (\<lambda>c w. (None, w)),
      stdinPipe = (\<lambda>c w. (None, w)),
      ioCopy = (\<lambda>dst src w. (None, w))\<rparr>"

definition lineSnapRunner :: "unit Runner" where
  "lineSnapRunner =
     scripted noError
       (\<lambda>c. if take 2 c = [''zfs'', ''list''] then (None, ''pool/a@s1'' @ [LF])
             else if c = [''zfs'', ''get'', ''-Ho'', ''value'', ''autobackup'', ''pool/a@s1''] then
               (None, ''true'' @ [LF])
             else (Some (Error ''exit status 1''), ''''))
       noError noError noError None"

section \<open>RecvSnap\<close>

text \<open>
  C10. When the \<open>recv\<close> invocation validates, \<open>RecvSnap\<close> returns the consumer's handle with
  a \<open>nil\<close> error whatever \<open>Start\<close> returned: the error of the start call is assigned and
  never read. The calls made are the validation and the start, in that order.
\<close>

theorem RecvSnap_discards_start_error:
  assumes "c = [''zfs'', ''recv'', fs @ ''@'' @ snap]"
    and "cmdError r c (world s) = (None, w1)"
    and "start r c w1 = (startErr, w2)"
  shows "RecvSnap r fs snap s =
           ((Some c, None), \<lparr>world = w2, trace = trace s @ [EvCommand c, EvStart c]\<rparr>)"
  using assms by (simp add: RecvSnap_def Command_def Start_def Let_def)

theorem RecvSnap_discards_start_error_witness:
  "start failingStart [''zfs'', ''recv'', ''pool/a@s1''] () = (Some (Error ''exec: no command''), ()) \<and>
   RecvSnap failingStart ''pool/a'' ''s1'' s0 =
     ((Some [''zfs'', ''recv'', ''pool/a@s1''], None),
      \<lparr>world = (),
       trace = [EvCommand [''zfs'', ''recv'', ''pool/a@s1''], EvStart [''zfs'', ''recv'', ''pool/a@s1'']]\<rparr>)"
  using RecvSnap_discards_start_error
    [of "[''zfs'', ''recv'', ''pool/a@s1'']" "''pool/a''" "''s1''" failingStart s0 "()"
        "Some (Error ''exec: no command'')" "()"]
  by (simp add: failingStart_def scripted_def noError_def s0_def)

section \<open>SendSnap\<close>

lemma SendSnap_validation_error:
  assumes "sendWorker = ''zfs'' # SendSnap_args fs snapOld snapNew"
    and "cmdError r sendWorker (world s) = (Some err, w1)"
  shows "SendSnap r fs snapOld snapNew cw s =
           ((None, Some err), \<lparr>world = w1, trace = trace s @ [EvCommand sendWorker]\<rparr>)"
  using assms by (simp add: SendSnap_def Command_def Let_def)

lemma SendSnap_stdout_pipe_error:
  assumes "sendWorker = ''zfs'' # SendSnap_args fs snapOld snapNew"
    and "cmdError r sendWorker (world s) = (None, w1)"
    and "stdoutPipe r sendWorker w1 = (Some err, w2)"
  shows "SendSnap r fs snapOld snapNew cw s =
           ((None, Some err), \<lparr>world = w2, trace = trace s @ [EvCommand sendWorker, EvStdoutPipe sendWorker]\<rparr>)"
  using assms by (simp add: SendSnap_def Command_def StdoutPipe_def Let_def)

lemma SendSnap_stdin_pipe_error:
  assumes "sendWorker = ''zfs'' # SendSnap_args fs snapOld snapNew"
    and "cmdError r sendWorker (world s) = (None, w1)"
    and "stdoutPipe r sendWorker w1 = (None, w2)"
    and "stdinPipe r cw w2 = (Some err, w3)"
  shows "SendSnap r fs snapOld snapNew cw s =
           ((None, Some err),
            \<lparr>world = w3, trace = trace s @ [EvCommand sendWorker, EvStdoutPipe sendWorker, EvStdinPipe cw]\<rparr>)"
  using assms by (simp add: SendSnap_def Command_def StdoutPipe_def StdinPipe_def Let_def)

lemma SendSnap_start_error:
  assumes "sendWorker = ''zfs'' # SendSnap_args fs snapOld snapNew"
    and "cmdError r sendWorker (world s) = (None, w1)"
    and "stdoutPipe r sendWorker w1 = (None, w2)"
    and "stdinPipe r cw w2 = (None, w3)"
    and "start r sendWorker w3 = (Some err, w4)"
  shows "SendSnap r fs snapOld snapNew cw s =
           ((None, Some err),
            \<lparr>world = w4,
             trace = trace s @ [EvCommand sendWorker, EvStdoutPipe sendWorker, EvStdinPipe cw, EvStart sendWorker]\<rparr>)"
  using assms by (simp add: SendSnap_def Command_def StdoutPipe_def StdinPipe_def Start_def Let_def)

lemma SendSnap_copied:
  assumes "sendWorker = ''zfs'' # SendSnap_args fs snapOld snapNew"
    and "cmdError r sendWorker (world s) = (None, w1)"
    and "stdoutPipe r sendWorker w1 = (None, w2)"
    and "stdinPipe r cw w2 = (None, w3)"
    and "start r sendWorker w3 = (None, w4)"
    and "ioCopy r cw sendWorker w4 = (copyErr, w5)"
  shows "SendSnap r fs snapOld snapNew cw s =
     ((Some sendWorker, copyErr),
      \<lparr>world = w5,
       trace = trace s @ [EvCommand sendWorker, EvStdoutPipe sendWorker, EvStdinPipe cw,
                          EvStart sendWorker, EvCopy cw sendWorker]\<rparr>)"
  using assms
  by (simp add: SendSnap_def Command_def StdoutPipe_def StdinPipe_def Start_def Copy_def Let_def)

lemma SendSnap_trace:
  assumes sw: "sendWorker = ''zfs'' # SendSnap_args fs snapOld snapNew"
  shows "new_events s (snd (SendSnap r fs snapOld snapNew cw s)) \<in>
           {[EvCommand sendWorker],
            [EvCommand sendWorker, EvStdoutPipe sendWorker],
            [EvCommand sendWorker, EvStdoutPipe sendWorker, EvStdinPipe cw],
            [EvCommand sendWorker, EvStdoutPipe sendWorker, EvStdinPipe cw, EvStart sendWorker],
            [EvCommand sendWorker, EvStdoutPipe sendWorker, EvStdinPipe cw, EvStart sendWorker,
             EvCopy cw sendWorker]}"
proof -
  obtain e1 w1 where c1: "cmdError r sendWorker (world s) = (e1, w1)" by (cases "cmdError r sendWorker (world s)")
  obtain e2 w2 where c2: "stdoutPipe r sendWorker w1 = (e2, w2)" by (cases "stdoutPipe r sendWorker w1")
  obtain e3 w3 where c3: "stdinPipe r cw w2 = (e3, w3)" by (cases "stdinPipe r cw w2")
  obtain e4 w4 where c4: "start r sendWorker w3 = (e4, w4)" by (cases "start r sendWorker w3")
  obtain e5 w5 where c5: "ioCopy r cw sendWorker w4 = (e5, w5)" by (cases "ioCopy r cw sendWorker w4")
  show ?thesis
  proof (cases e1)
    case (Some err)
    with c1 have "cmdError r sendWorker (world s) = (Some err, w1)" by simp
    from SendSnap_validation_error [OF sw this] show ?thesis by (simp add: new_events_def)
  next
    case None
    with c1 have v1: "cmdError r sendWorker (world s) = (None, w1)" by simp
    show ?thesis
    proof (cases e2)
      case (Some err)
      with c2 have "stdoutPipe r sendWorker w1 = (Some err, w2)" by simp
      from SendSnap_stdout_pipe_error [OF sw v1 this] show ?thesis by (simp add: new_events_def)
    next
      case None
      with c2 have v2: "stdoutPipe r sendWorker w1 = (None, w2)" by simp
      show ?thesis
      proof (cases e3)
        case (Some err)
        with c3 have "stdinPipe r cw w2 = (Some err, w3)" by simp
        from SendSnap_stdin_pipe_error [OF sw v1 v2 this] show ?thesis by (simp add: new_events_def)
      next
        case None
        with c3 have v3: "stdinPipe r cw w2 = (None, w3)" by simp
        show ?thesis
        proof (cases e4)
          case (Some err)
          with c4 have "start r sendWorker w3 = (Some err, w4)" by simp
          from SendSnap_start_error [OF sw v1 v2 v3 this] show ?thesis by (simp add: new_events_def)
        next
          case None
          with c4 have v4: "start r sendWorker w3 = (None, w4)" by simp
          from SendSnap_copied [OF sw v1 v2 v3 v4 c5] show ?thesis by (simp add: new_events_def)
        qed
      qed
    qed
  qed
qed

lemma SendSnap_first_event:
  "take 1 (new_events s (snd (SendSnap r fs snapOld snapNew cw s))) =
     [EvCommand (''zfs'' # SendSnap_args fs snapOld snapNew)]"
  using SendSnap_trace [OF refl, of s r fs snapOld snapNew cw] by auto


lemma SendSnap_started_only_after_pipes:
  assumes sw: "sendWorker = ''zfs'' # SendSnap_args fs snapOld snapNew"
    and started: "EvStart sendWorker \<in> set (new_events s (snd (SendSnap r fs snapOld snapNew cw s)))"
  shows "\<exists>w1 w2 w3.
           cmdError r sendWorker (world s) = (None, w1) \<and>
           stdoutPipe r sendWorker w1 = (None, w2) \<and>
           stdinPipe r cw w2 = (None, w3) \<and>
           take 4 (new_events s (snd (SendSnap r fs snapOld snapNew cw s))) =
             [EvCommand sendWorker, EvStdoutPipe sendWorker, EvStdinPipe cw, EvStart sendWorker]"
proof -
  obtain e1 w1 where c1: "cmdError r sendWorker (world s) = (e1, w1)" by (cases "cmdError r sendWorker (world s)")
  obtain e2 w2 where c2: "stdoutPipe r sendWorker w1 = (e2, w2)" by (cases "stdoutPipe r sendWorker w1")
  obtain e3 w3 where c3: "stdinPipe r cw w2 = (e3, w3)" by (cases "stdinPipe r cw w2")
  obtain e4 w4 where c4: "start r sendWorker w3 = (e4, w4)" by (cases "start r sendWorker w3")
  obtain e5 w5 where c5: "ioCopy r cw sendWorker w4 = (e5, w5)" by (cases "ioCopy r cw sendWorker w4")
  have v1: "cmdError r sendWorker (world s) = (None, w1)"
  proof (cases e1)
    case (Some err)
    with c1 have "cmdError r sendWorker (world s) = (Some err, w1)" by simp
    from SendSnap_validation_error [OF sw this] started show ?thesis by (simp add: new_events_def)
  next
    case None
    with c1 show ?thesis by simp
  qed
  have v2: "stdoutPipe r sendWorker w1 = (None, w2)"
  proof (cases e2)
    case (Some err)
    with c2 have "stdoutPipe r sendWorker w1 = (Some err, w2)" by simp
    from SendSnap_stdout_pipe_error [OF sw v1 this] started show ?thesis by (simp add: new_events_def)
  next
    case None
    with c2 show ?thesis by simp
  qed
  have v3: "stdinPipe r cw w2 = (None, w3)"
  proof (cases e3)
    case (Some err)
    with c3 have "stdinPipe r cw w2 = (Some err, w3)" by simp
    from SendSnap_stdin_pipe_error [OF sw v1 v2 this] started show ?thesis by (simp add: new_events_def)
  next
    case None
    with c3 show ?thesis by simp
  qed
  have "take 4 (new_events s (snd (SendSnap r fs snapOld snapNew cw s))) =
             [EvCommand sendWorker, EvStdoutPipe sendWorker, EvStdinPipe cw, EvStart sendWorker]"
  proof (cases e4)
    case (Some err)
    with c4 have "start r sendWorker w3 = (Some err, w4)" by simp
    from SendSnap_start_error [OF sw v1 v2 v3 this] show ?thesis by (simp add: new_events_def)
  next
    case None
    with c4 have "start r sendWorker w3 = (None, w4)" by simp
    from SendSnap_copied [OF sw v1 v2 v3 this c5] show ?thesis by (simp add: new_events_def)
  qed
  with v1 v2 v3 show ?thesis by blast
qed

text \<open>
  C6. With an empty new-snapshot name the producer is invoked as \<open>send <fs>@<old>\<close>, two
  arguments and no more; with a non-empty one as \<open>send -i <fs>@<old> <fs>@<new>\<close>. This is
  the argument list the code builds, and the command line of the first call \<open>SendSnap\<close> makes.
\<close>

theorem SendSnap_invocation:
  "(snapNew = '''' \<longrightarrow>
      SendSnap_args fs snapOld snapNew = [''send'', fs @ ''@'' @ snapOld] \<and>
      take 1 (new_events s (snd (SendSnap r fs snapOld snapNew cw s))) =
        [EvCommand [''zfs'', ''send'', fs @ ''@'' @ snapOld]]) \<and>
   (snapNew \<noteq> '''' \<longrightarrow>
      SendSnap_args fs snapOld snapNew = [''send'', ''-i'', fs @ ''@'' @ snapOld, fs @ ''@'' @ snapNew] \<and>
      take 1 (new_events s (snd (SendSnap r fs snapOld snapNew cw s))) =
        [EvCommand [''zfs'', ''send'', ''-i'', fs @ ''@'' @ snapOld, fs @ ''@'' @ snapNew]])"
  using SendSnap_first_event [of s r fs snapOld snapNew cw]
  by (auto simp: SendSnap_args_def)

theorem SendSnap_invocation_witness:
  "SendSnap_args ''pool/a'' ''s1'' '''' = [''send'', ''pool/a@s1''] \<and>
   take 1 (new_events s0 (snd (SendSnap allFine ''pool/a'' ''s1'' '''' [''zfs'', ''recv'', ''tank/a@s1''] s0))) =
     [EvCommand [''zfs'', ''send'', ''pool/a@s1'']] \<and>
   SendSnap_args ''pool/a'' ''s1'' ''s2'' = [''send'', ''-i'', ''pool/a@s1'', ''pool/a@s2''] \<and>
   take 1 (new_events s0 (snd (SendSnap allFine ''pool/a'' ''s1'' ''s2'' [''zfs'', ''recv'', ''tank/a@s2''] s0))) =
     [EvCommand [''zfs'', ''send'', ''-i'', ''pool/a@s1'', ''pool/a@s2'']]"
  using SendSnap_invocation [of "''''" "''pool/a''" "''s1''" s0 allFine "[''zfs'', ''recv'', ''tank/a@s1'']"]
    SendSnap_invocation [of "''s2''" "''pool/a''" "''s1''" s0 allFine "[''zfs'', ''recv'', ''tank/a@s2'']"]
  by simp

text \<open>
  C8. Once the producer has been started, \<open>SendSnap\<close> returns the producer's handle together
  with whatever the copy returned: the copy's error when it failed, \<open>nil\<close> when it ran to the
  end of the stream.
\<close>

theorem SendSnap_returns_copy_error:
  assumes "sendWorker = ''zfs'' # SendSnap_args fs snapOld snapNew"
    and "cmdError r sendWorker (world s) = (None, w1)"
    and "stdoutPipe r sendWorker w1 = (None, w2)"
    and "stdinPipe r cw w2 = (None, w3)"
    and "start r sendWorker w3 = (None, w4)"
    and "ioCopy r cw sendWorker w4 = (copyErr, w5)"
  shows "SendSnap r fs snapOld snapNew cw s =
     ((Some sendWorker, copyErr),
      \<lparr>world = w5,
       trace = trace s @ [EvCommand sendWorker, EvStdoutPipe sendWorker, EvStdinPipe cw,
                          EvStart sendWorker, EvCopy cw sendWorker]\<rparr>)"
  using assms by (rule SendSnap_copied)

theorem SendSnap_returns_copy_error_witness:
  "fst (SendSnap brokenPipe ''pool/a'' ''s1'' ''s2'' [''zfs'', ''recv'', ''tank/a@s2''] s0) =
     (Some [''zfs'', ''send'', ''-i'', ''pool/a@s1'', ''pool/a@s2''], Some (Error ''write: broken pipe'')) \<and>
   fst (SendSnap allFine ''pool/a'' ''s1'' ''s2'' [''zfs'', ''recv'', ''tank/a@s2''] s0) =
     (Some [''zfs'', ''send'', ''-i'', ''pool/a@s1'', ''pool/a@s2''], None)"
  using SendSnap_returns_copy_error
      [of "[''zfs'', ''send'', ''-i'', ''pool/a@s1'', ''pool/a@s2'']" "''pool/a''" "''s1''" "''s2''"
          brokenPipe s0 "()" "()" "[''zfs'', ''recv'', ''tank/a@s2'']" "()" "()"
          "Some (Error ''write: broken pipe'')" "()"]
    SendSnap_returns_copy_error
      [of "[''zfs'', ''send'', ''-i'', ''pool/a@s1'', ''pool/a@s2'']" "''pool/a''" "''s1''" "''s2''"
          allFine s0 "()" "()" "[''zfs'', ''recv'', ''tank/a@s2'']" "()" "()" None "()"]
  by (simp add: brokenPipe_def allFine_def scripted_def noError_def s0_def SendSnap_args_def)

text \<open>
  C7. The producer is started only after both pipes have been acquired: whenever \<open>SendSnap\<close>
  calls \<open>Start\<close> on the producer, the validation and the two pipe acquisitions came before
  it, in that order, and each returned no error. An error from the validation, from either
  pipe acquisition or from the start call itself is returned at once with a \<open>nil\<close> handle;
  in the first three cases no start was attempted, in the fourth the start call failed, and
  in none of them is anything copied.
\<close>

theorem SendSnap_start_after_pipes:
  assumes "sendWorker = ''zfs'' # SendSnap_args fs snapOld snapNew"
  shows "(EvStart sendWorker \<in> set (new_events s (snd (SendSnap r fs snapOld snapNew cw s))) \<longrightarrow>
            (\<exists>w1 w2 w3.
               cmdError r sendWorker (world s) = (None, w1) \<and>
               stdoutPipe r sendWorker w1 = (None, w2) \<and>
               stdinPipe r cw w2 = (None, w3) \<and>
               take 4 (new_events s (snd (SendSnap r fs snapOld snapNew cw s))) =
                 [EvCommand sendWorker, EvStdoutPipe sendWorker, EvStdinPipe cw, EvStart sendWorker])) \<and>
         (\<forall>err w1. cmdError r sendWorker (world s) = (Some err, w1) \<longrightarrow>
            SendSnap r fs snapOld snapNew cw s =
              ((None, Some err), \<lparr>world = w1, trace = trace s @ [EvCommand sendWorker]\<rparr>)) \<and>
         (\<forall>err w1 w2. cmdError r sendWorker (world s) = (None, w1) \<and>
              stdoutPipe r sendWorker w1 = (Some err, w2) \<longrightarrow>
            SendSnap r fs snapOld snapNew cw s =
              ((None, Some err),
               \<lparr>world = w2, trace = trace s @ [EvCommand sendWorker, EvStdoutPipe sendWorker]\<rparr>)) \<and>
         (\<forall>err w1 w2 w3. cmdError r sendWorker (world s) = (None, w1) \<and>
              stdoutPipe r sendWorker w1 = (None, w2) \<and> stdinPipe r cw w2 = (Some err, w3) \<longrightarrow>
            SendSnap r fs snapOld snapNew cw s =
              ((None, Some err),
               \<lparr>world = w3,
                trace = trace s @ [EvCommand sendWorker, EvStdoutPipe sendWorker, EvStdinPipe cw]\<rparr>)) \<and>
         (\<forall>err w1 w2 w3 w4. cmdError r sendWorker (world s) = (None, w1) \<and>
              stdoutPipe r sendWorker w1 = (None, w2) \<and> stdinPipe r cw w2 = (None, w3) \<and>
              start r sendWorker w3 = (Some err, w4) \<longrightarrow>
            SendSnap r fs snapOld snapNew cw s =
              ((None, Some err),
               \<lparr>world = w4,
                trace = trace s @ [EvCommand sendWorker, EvStdoutPipe sendWorker, EvStdinPipe cw,
                                   EvStart sendWorker]\<rparr>))"
  using SendSnap_started_only_after_pipes [OF assms, of s r cw]
    SendSnap_validation_error [OF assms, of r s _ _ cw]
    SendSnap_stdout_pipe_error [OF assms, of r s _ _ _ cw]
    SendSnap_stdin_pipe_error [OF assms, of r s _ _ cw]
    SendSnap_start_error [OF assms, of r s _ _ cw]
  by blast

theorem SendSnap_start_after_pipes_witness:
  "SendSnap missingBinary ''pool/a'' ''s1'' ''s2'' [''zfs'', ''recv'', ''tank/a@s2''] s0 =
     ((None, Some (Error ''exec: zfs: executable file not found'')),
      \<lparr>world = (), trace = [EvCommand [''zfs'', ''send'', ''-i'', ''pool/a@s1'', ''pool/a@s2'']]\<rparr>) \<and>
   SendSnap noStdout ''pool/a'' ''s1'' ''s2'' [''zfs'', ''recv'', ''tank/a@s2''] s0 =
     ((None, Some (Error ''exec: Stdout already set'')),
      \<lparr>world = (),
       trace = [EvCommand [''zfs'', ''send'', ''-i'', ''pool/a@s1'', ''pool/a@s2''],
                EvStdoutPipe [''zfs'', ''send'', ''-i'', ''pool/a@s1'', ''pool/a@s2'']]\<rparr>) \<and>
   SendSnap noStdin ''pool/a'' ''s1'' ''s2'' [''zfs'', ''recv'', ''tank/a@s2''] s0 =
     ((None, Some (Error ''exec: Stdin already set'')),
      \<lparr>world = (),
       trace = [EvCommand [''zfs'', ''send'', ''-i'', ''pool/a@s1'', ''pool/a@s2''],
                EvStdoutPipe [''zfs'', ''send'', ''-i'', ''pool/a@s1'', ''pool/a@s2''],
                EvStdinPipe [''zfs'', ''recv'', ''tank/a@s2'']]\<rparr>) \<and>
   SendSnap failingStart ''pool/a'' ''s1'' ''s2'' [''zfs'', ''recv'', ''tank/a@s2''] s0 =
     ((None, Some (Error ''exec: no command'')),
      \<lparr>world = (),
       trace = [EvCommand [''zfs'', ''send'', ''-i'', ''pool/a@s1'', ''pool/a@s2''],
                EvStdoutPipe [''zfs'', ''send'', ''-i'', ''pool/a@s1'', ''pool/a@s2''],
                EvStdinPipe [''zfs'', ''recv'', ''tank/a@s2''],
                EvStart [''zfs'', ''send'', ''-i'', ''pool/a@s1'', ''pool/a@s2'']]\<rparr>) \<and>
   EvStart [''zfs'', ''send'', ''-i'', ''pool/a@s1'', ''pool/a@s2''] \<in>
     set (new_events s0 (snd (SendSnap allFine ''pool/a'' ''s1'' ''s2'' [''zfs'', ''recv'', ''tank/a@s2''] s0))) \<and>
   take 4 (new_events s0 (snd (SendSnap allFine ''pool/a'' ''s1'' ''s2'' [''zfs'', ''recv'', ''tank/a@s2''] s0))) =
     [EvCommand [''zfs'', ''send'', ''-i'', ''pool/a@s1'', ''pool/a@s2''],
      EvStdoutPipe [''zfs'', ''send'', ''-i'', ''pool/a@s1'', ''pool/a@s2''],
      EvStdinPipe [''zfs'', ''recv'', ''tank/a@s2''],
      EvStart [''zfs'', ''send'', ''-i'', ''pool/a@s1'', ''pool/a@s2'']]"
proof -
  let ?sw = "[''zfs'', ''send'', ''-i'', ''pool/a@s1'', ''pool/a@s2'']"
  let ?cw = "[''zfs'', ''recv'', ''tank/a@s2'']"
  have sw: "?sw = ''zfs'' # SendSnap_args ''pool/a'' ''s1'' ''s2''"
    by (simp add: SendSnap_args_def)
  note ordering = SendSnap_start_after_pipes [OF sw]
  have validation: "SendSnap missingBinary ''pool/a'' ''s1'' ''s2'' ?cw s0 =
     ((None, Some (Error ''exec: zfs: executable file not found'')),
      \<lparr>world = (), trace = [EvCommand ?sw]\<rparr>)"
    using ordering [of s0 missingBinary ?cw]
    by (simp add: missingBinary_def scripted_def noError_def s0_def)
  have stdout: "SendSnap noStdout ''pool/a'' ''s1'' ''s2'' ?cw s0 =
     ((None, Some (Error ''exec: Stdout already set'')),
      \<lparr>world = (), trace = [EvCommand ?sw, EvStdoutPipe ?sw]\<rparr>)"
    using ordering [of s0 noStdout ?cw]
    by (simp add: noStdout_def scripted_def noError_def s0_def)
  have stdin: "SendSnap noStdin ''pool/a'' ''s1'' ''s2'' ?cw s0 =
     ((None, Some (Error ''exec: Stdin already set'')),
      \<lparr>world = (), trace = [EvCommand ?sw, EvStdoutPipe ?sw, EvStdinPipe ?cw]\<rparr>)"
    using ordering [of s0 noStdin ?cw]
    by (simp add: noStdin_def scripted_def noError_def s0_def)
  have starting: "SendSnap failingStart ''pool/a'' ''s1'' ''s2'' ?cw s0 =
     ((None, Some (Error ''exec: no command'')),
      \<lparr>world = (), trace = [EvCommand ?sw, EvStdoutPipe ?sw, EvStdinPipe ?cw, EvStart ?sw]\<rparr>)"
    using ordering [of s0 failingStart ?cw]
    by (simp add: failingStart_def scripted_def noError_def s0_def)
  have started: "EvStart ?sw \<in>
     set (new_events s0 (snd (SendSnap allFine ''pool/a'' ''s1'' ''s2'' ?cw s0)))"
  proof -
    have "SendSnap allFine ''pool/a'' ''s1'' ''s2'' ?cw s0 =
       ((Some ?sw, None),
        \<lparr>world = (),
         trace = trace s0 @ [EvCommand ?sw, EvStdoutPipe ?sw, EvStdinPipe ?cw, EvStart ?sw, EvCopy ?cw ?sw]\<rparr>)"
      by (rule SendSnap_copied [OF sw]) (simp_all add: allFine_def scripted_def noError_def)
    then show ?thesis by (simp add: new_events_def s0_def)
  qed
  have pipes_first: "take 4 (new_events s0 (snd (SendSnap allFine ''pool/a'' ''s1'' ''s2'' ?cw s0))) =
     [EvCommand ?sw, EvStdoutPipe ?sw, EvStdinPipe ?cw, EvStart ?sw]"
    using ordering [of s0 allFine ?cw] started by blast
  from validation stdout stdin starting started pipes_first show ?thesis by blast
qed

section \<open>Property and SetProperty: what they return\<close>

lemma Property_success:
  assumes "c = [''zfs'', ''get'', ''-Ho'', ''value'', property, fs]"
    and "cmdError r c (world s) = (None, w1)"
    and "run r c w1 = ((None, out), w2)"
  shows "Property r fs property s =
           ((out, None), \<lparr>world = w2, trace = trace s @ [EvCommand c, EvRun c]\<rparr>)"
  using assms by (simp add: Property_def Command_def Run_def Let_def)

lemma Property_events:
  assumes "c = [''zfs'', ''get'', ''-Ho'', ''value'', property, fs]"
  shows "new_events s (snd (Property r fs property s)) \<in> {[EvCommand c], [EvCommand c, EvRun c]}"
  using assms
  by (simp add: Property_def Command_def Run_def Let_def new_events_def split: prod.splits option.splits)

text \<open>
  C9. \<open>Property\<close> issues one query (\<open>Property_events\<close>), but it returns the bytes the tool
  wrote as they are, where the claim has it return the trimmed value. For a tool that prints
  \<open>on\<close> and a line feed the value returned is \<open>on\<close> with the line feed, not \<open>on\<close>. The
  callers compare the value with bare text: against such a tool \<open>SetProperty\<close> reports
  \<open>cannot set property\<close> although the property now has the requested value, and
  \<open>RecentSnap\<close> finds no snapshot although the property of \<open>pool/a@s1\<close> is \<open>true\<close>.
\<close>

theorem Property_returns_untrimmed_output:
  "fst (Property onRunner ''pool'' ''compression'' s0) = (''on'' @ [LF], None) \<and>
   spec_trimmed (''on'' @ [LF]) = ''on'' \<and>
   SetProperty lineRunner ''pool'' ''compression'' ''on'' \<lparr>world = ''off'', trace = []\<rparr> =
     (Some (Error ''cannot set property: compression''),
      \<lparr>world = ''on'',
       trace = [EvCommand [''zfs'', ''set'', ''compression=on'', ''pool''],
                EvRun [''zfs'', ''set'', ''compression=on'', ''pool''],
                EvCommand [''zfs'', ''get'', ''-Ho'', ''value'', ''compression'', ''pool''],
                EvRun [''zfs'', ''get'', ''-Ho'', ''value'', ''compression'', ''pool'']]\<rparr>) \<and>
   fst (Property lineSnapRunner ''pool/a@s1'' ''autobackup'' s0) = (''true'' @ [LF], None) \<and>
   fst (RecentSnap lineSnapRunner ''pool/a@'' ''autobackup'' s0) = ('''', None)"
  by (simp add: Property_def SetProperty_def RecentSnap_def Command_def Run_def Let_def onRunner_def
      lineRunner_def lineSnapRunner_def scripted_def noError_def s0_def spec_trimmed_def isSpace_def)

lemma SetProperty_read_back:
  assumes "cset = [''zfs'', ''set'', property @ ''='' @ val, fs]"
    and "cget = [''zfs'', ''get'', ''-Ho'', ''value'', property, fs]"
    and "cmdError r cset (world s) = (None, w1)"
    and "run r cset w1 = ((None, out1), w2)"
    and "cmdError r cget w2 = (None, w3)"
    and "run r cget w3 = ((None, out), w4)"
  shows "SetProperty r fs property val s =
           ((if out = val then None else Some (Error (''cannot set property: '' @ property))),
            \<lparr>world = w4, trace = trace s @ [EvCommand cset, EvRun cset, EvCommand cget, EvRun cget]\<rparr>)"
  using assms by (simp add: SetProperty_def Property_def Command_def Run_def Let_def)

lemma SetProperty_success_only_verified:
  assumes "cset = [''zfs'', ''set'', property @ ''='' @ val, fs]"
    and "cget = [''zfs'', ''get'', ''-Ho'', ''value'', property, fs]"
    and "SetProperty r fs property val s = (None, s')"
  shows "\<exists>w1 out1 w2 w3 w4.
           cmdError r cset (world s) = (None, w1) \<and> run r cset w1 = ((None, out1), w2) \<and>
           cmdError r cget w2 = (None, w3) \<and> run r cget w3 = ((None, val), w4) \<and>
           s' = \<lparr>world = w4, trace = trace s @ [EvCommand cset, EvRun cset, EvCommand cget, EvRun cget]\<rparr>"
  using assms
  by (auto simp: SetProperty_def Property_def Command_def Run_def Let_def
      split: prod.splits option.splits if_splits)


text \<open>
  C5. \<open>SetProperty\<close> issues the write and, when the write reports success, reads the same
  key back at once and compares the value read with the value requested, byte for byte:
  a different value gives the error \<open>cannot set property: <key>\<close> although the write
  succeeded, and \<open>SetProperty\<close> returns \<open>nil\<close> only when the value read back is the
  requested one.
\<close>

theorem SetProperty_verifies_by_read_back:
  assumes "cset = [''zfs'', ''set'', property @ ''='' @ val, fs]"
    and "cget = [''zfs'', ''get'', ''-Ho'', ''value'', property, fs]"
  shows "(\<forall>w1 out1 w2 w3 out w4.
            cmdError r cset (world s) = (None, w1) \<and> run r cset w1 = ((None, out1), w2) \<and>
            cmdError r cget w2 = (None, w3) \<and> run r cget w3 = ((None, out), w4) \<longrightarrow>
            SetProperty r fs property val s =
              ((if out = val then None else Some (Error (''cannot set property: '' @ property))),
               \<lparr>world = w4, trace = trace s @ [EvCommand cset, EvRun cset, EvCommand cget, EvRun cget]\<rparr>)) \<and>
         (\<forall>s'. SetProperty r fs property val s = (None, s') \<longrightarrow>
            (\<exists>w1 out1 w2 w3 w4.
               cmdError r cset (world s) = (None, w1) \<and> run r cset w1 = ((None, out1), w2) \<and>
               cmdError r cget w2 = (None, w3) \<and> run r cget w3 = ((None, val), w4) \<and>
               s' = \<lparr>world = w4, trace = trace s @ [EvCommand cset, EvRun cset, EvCommand cget, EvRun cget]\<rparr>))"
  using SetProperty_read_back [OF assms, of r s] SetProperty_success_only_verified [OF assms, of r s]
  by blast

theorem SetProperty_verifies_by_read_back_witness:
  "SetProperty (propRunner False) ''pool/a'' ''compression'' ''on'' \<lparr>world = ''off'', trace = []\<rparr> =
     (Some (Error ''cannot set property: compression''),
      \<lparr>world = ''off'',
       trace = [EvCommand [''zfs'', ''set'', ''compression=on'', ''pool/a''],
                EvRun [''zfs'', ''set'', ''compression=on'', ''pool/a''],
                EvCommand [''zfs'', ''get'', ''-Ho'', ''value'', ''compression'', ''pool/a''],
                EvRun [''zfs'', ''get'', ''-Ho'', ''value'', ''compression'', ''pool/a'']]\<rparr>) \<and>
   SetProperty (propRunner True) ''pool/a'' ''compression'' ''on'' \<lparr>world = ''off'', trace = []\<rparr> =
     (None,
      \<lparr>world = ''on'',
       trace = [EvCommand [''zfs'', ''set'', ''compression=on'', ''pool/a''],
                EvRun [''zfs'', ''set'', ''compression=on'', ''pool/a''],
                EvCommand [''zfs'', ''get'', ''-Ho'', ''value'', ''compression'', ''pool/a''],
                EvRun [''zfs'', ''get'', ''-Ho'', ''value'', ''compression'', ''pool/a'']]\<rparr>)"
proof -
  let ?cset = "[''zfs'', ''set'', ''compression=on'', ''pool/a'']"
  let ?cget = "[''zfs'', ''get'', ''-Ho'', ''value'', ''compression'', ''pool/a'']"
  have cset: "?cset = [''zfs'', ''set'', ''compression'' @ ''='' @ ''on'', ''pool/a'']"
    by simp
  note verified = SetProperty_verifies_by_read_back [OF cset refl]
  have ignored: "SetProperty (propRunner False) ''pool/a'' ''compression'' ''on'' \<lparr>world = ''off'', trace = []\<rparr> =
     (Some (Error ''cannot set property: compression''),
      \<lparr>world = ''off'', trace = [EvCommand ?cset, EvRun ?cset, EvCommand ?cget, EvRun ?cget]\<rparr>)"
    using verified [of "propRunner False" "\<lparr>world = ''off'', trace = []\<rparr>", THEN conjunct1, rule_format,
        of "''off''" "''''" "''off''" "''off''" "''off''" "''off''"]
    by (simp add: propRunner_def)
  have applied: "SetProperty (propRunner True) ''pool/a'' ''compression'' ''on'' \<lparr>world = ''off'', trace = []\<rparr> =
     (None,
      \<lparr>world = ''on'', trace = [EvCommand ?cset, EvRun ?cset, EvCommand ?cget, EvRun ?cget]\<rparr>)"
    using verified [of "propRunner True" "\<lparr>world = ''off'', trace = []\<rparr>", THEN conjunct1, rule_format,
        of "''off''" "''''" "''on''" "''on''" "''on''" "''on''"]
    by (simp add: propRunner_def)
  from ignored applied show ?thesis by blast
qed

section \<open>The string functions against the library's notions\<close>

lemma HasPrefix_prefix: "HasPrefix s p \<longleftrightarrow> prefix p s"
  unfolding HasPrefix_def prefix_def
  by (metis append_eq_conv_conj append_take_drop_id length_append le_add1)

lemma Contains_sublist: "Contains s substr \<longleftrightarrow> sublist substr s"
  by (induction s) (auto simp: HasPrefix_prefix sublist_Cons_right)

lemma HasSuffix_star: "HasSuffix fs ''*'' \<longleftrightarrow> fs \<noteq> [] \<and> last fs = CHR ''*''"
proof (cases fs rule: rev_cases)
  case Nil
  then show ?thesis by (simp add: HasSuffix_def)
next
  case (snoc ys y)
  then show ?thesis by (auto simp: HasSuffix_def)
qed

lemma TrimRight_star_snoc:
  "\<not> HasSuffix p ''*'' \<Longrightarrow> TrimRight (p @ ''*'') ''*'' = p"
  by (cases p rule: rev_cases) (auto simp: TrimRight_def HasSuffix_star)

section \<open>List, ExistFs and ExistSnap: what they return\<close>

lemma List_wildcard:
  "HasSuffix fs ''*'' \<Longrightarrow>
   List r fs fsType recursive s =
     (case List r '''' FS False s of
        ((out, Some err), s1) \<Rightarrow> (([], Some err), s1)
      | ((out, None), s1) \<Rightarrow> ((filter (\<lambda>next. Contains next (TrimRight fs ''*'')) out, None), s1))"
  by (subst List.simps) simp

lemma last_by_index: "Suc 0 < length xs \<Longrightarrow> xs ! (length xs - Suc 0) = last xs"
  by (cases xs rule: rev_cases) simp_all

lemma List_plain:
  "\<not> HasSuffix fs ''*'' \<Longrightarrow>
   List r fs fsType recursive s =
     (let c = ''zfs'' # List_args fs fsType recursive in
      case Command r c s of
        (Some err, s1) \<Rightarrow> (([], Some err), s1)
      | (None, s1) \<Rightarrow>
          (case Run r c s1 of
             ((Some err, stdout), s2) \<Rightarrow> (([], Some err), s2)
           | ((None, stdout), s2) \<Rightarrow> ((List_lines stdout, None), s2)))"
  apply (subst List.simps)
  apply (simp only: if_False)
  apply (cases "fs = ''''"; cases recursive)
  apply (auto simp: Let_def List_args_def List_lines_def last_by_index butlast_conv_take split: prod.splits option.splits)
  done

lemma List_plain_first_event:
  "\<not> HasSuffix fs ''*'' \<Longrightarrow>
   take 1 (new_events s (snd (List r fs fsType recursive s))) = [EvCommand (''zfs'' # List_args fs fsType recursive)]"
  by (simp add: List_plain Let_def Command_def Run_def new_events_def split: prod.splits option.splits)

lemmas poolRunner_eval =
  poolRunner_def scripted_def noError_def s0_def Command_def Run_def List_args_def List_lines_def
  HasSuffix_def FS_def SNAP_def Let_def

lemma List_all_filesystems:
  "List r '''' FS False s =
     (let c = [''zfs'', ''list'', ''-Ho'', ''name'', ''-t'', ''filesystem''] in
      case Command r c s of
        (Some err, s1) \<Rightarrow> (([], Some err), s1)
      | (None, s1) \<Rightarrow>
          (case Run r c s1 of
             ((Some err, stdout), s2) \<Rightarrow> (([], Some err), s2)
           | ((None, stdout), s2) \<Rightarrow> ((List_lines stdout, None), s2)))"
  by (simp add: List_plain HasSuffix_def List_args_def FS_def)

lemma List_validation_error:
  assumes "c = Exist_listing target kind"
    and "cmdError r c (world s) = (Some err, w1)"
  shows "List r target kind False s = (([], Some err), \<lparr>world = w1, trace = trace s @ [EvCommand c]\<rparr>)"
proof (cases "HasSuffix target ''*''")
  case True
  with assms show ?thesis
    by (simp add: List_wildcard List_all_filesystems Exist_listing_def Command_def Let_def)
next
  case False
  with assms show ?thesis
    by (simp add: List_plain Exist_listing_def List_args_def Command_def Let_def)
qed

lemma List_run_error:
  assumes "c = Exist_listing target kind"
    and "cmdError r c (world s) = (None, w1)"
    and "run r c w1 = ((Some err, out), w2)"
  shows "List r target kind False s =
           (([], Some err), \<lparr>world = w2, trace = trace s @ [EvCommand c, EvRun c]\<rparr>)"
proof (cases "HasSuffix target ''*''")
  case True
  with assms show ?thesis
    by (simp add: List_wildcard List_all_filesystems Exist_listing_def Command_def Run_def Let_def)
next
  case False
  with assms show ?thesis
    by (simp add: List_plain Exist_listing_def List_args_def Command_def Run_def Let_def)
qed

lemma List_run_ok:
  assumes "c = Exist_listing target kind"
    and "cmdError r c (world s) = (None, w1)"
    and "run r c w1 = ((None, out), w2)"
  shows "\<exists>entries. List r target kind False s =
           ((entries, None), \<lparr>world = w2, trace = trace s @ [EvCommand c, EvRun c]\<rparr>)"
proof (cases "HasSuffix target ''*''")
  case True
  with assms show ?thesis
    by (simp add: List_wildcard List_all_filesystems Exist_listing_def Command_def Run_def Let_def)
next
  case False
  with assms show ?thesis
    by (simp add: List_plain Exist_listing_def List_args_def Command_def Run_def Let_def)
qed

lemma ExistFs_of_List:
  "List r fs FS False s = ((entries, e), s1) \<Longrightarrow>
   ExistFs r fs s =
     ((case e of None \<Rightarrow> (True, None)
       | Some err \<Rightarrow> if sublist ''dataset does not exist'' (ErrorText err) then (False, None)
                     else (False, Some err)), s1)"
  by (simp add: ExistFs_def Contains_sublist DATANOE_def split: option.splits)

lemma ExistSnap_of_List:
  "List r (fs @ ''@'' @ snap) SNAP False s = ((entries, e), s1) \<Longrightarrow>
   ExistSnap r fs snap s =
     ((case e of None \<Rightarrow> (True, None)
       | Some err \<Rightarrow> if sublist ''dataset does not exist'' (ErrorText err) then (False, None)
                     else (False, Some err)), s1)"
  by (simp add: ExistSnap_def Contains_sublist DATANOE_def split: option.splits)

text \<open>
  C3, as the code has it. \<open>ExistFs\<close> and \<open>ExistSnap\<close> run one listing, not recursive: for
  a target that does not end in \<open>*\<close> it is \<open>list -Ho name -t <kind> [<target>]\<close>, for a
  target that ends in \<open>*\<close> it is the listing of all file systems,
  \<open>list -Ho name -t filesystem\<close>, and the target is never passed to the tool. When that
  listing fails, at its validation or at its run, with an error whose text contains
  \<open>dataset does not exist\<close>, the answer is \<open>false\<close> with a \<open>nil\<close> error; when it fails with
  any other error the answer is \<open>false\<close> with that very error; when it succeeds the answer
  is \<open>true\<close>.
\<close>

theorem Exist_classifies_listing_error:
  assumes "cf = Exist_listing fs ''filesystem''"
    and "cs = Exist_listing (fs @ ''@'' @ snap) ''snapshot''"
  shows "(\<forall>err w1. cmdError r cf (world s) = (Some err, w1) \<longrightarrow>
            ExistFs r fs s =
              ((if sublist ''dataset does not exist'' (ErrorText err) then (False, None) else (False, Some err)),
               \<lparr>world = w1, trace = trace s @ [EvCommand cf]\<rparr>)) \<and>
         (\<forall>err out w1 w2. cmdError r cf (world s) = (None, w1) \<and> run r cf w1 = ((Some err, out), w2) \<longrightarrow>
            ExistFs r fs s =
              ((if sublist ''dataset does not exist'' (ErrorText err) then (False, None) else (False, Some err)),
               \<lparr>world = w2, trace = trace s @ [EvCommand cf, EvRun cf]\<rparr>)) \<and>
         (\<forall>out w1 w2. cmdError r cf (world s) = (None, w1) \<and> run r cf w1 = ((None, out), w2) \<longrightarrow>
            ExistFs r fs s = ((True, None), \<lparr>world = w2, trace = trace s @ [EvCommand cf, EvRun cf]\<rparr>)) \<and>
         (\<forall>err w1. cmdError r cs (world s) = (Some err, w1) \<longrightarrow>
            ExistSnap r fs snap s =
              ((if sublist ''dataset does not exist'' (ErrorText err) then (False, None) else (False, Some err)),
               \<lparr>world = w1, trace = trace s @ [EvCommand cs]\<rparr>)) \<and>
         (\<forall>err out w1 w2. cmdError r cs (world s) = (None, w1) \<and> run r cs w1 = ((Some err, out), w2) \<longrightarrow>
            ExistSnap r fs snap s =
              ((if sublist ''dataset does not exist'' (ErrorText err) then (False, None) else (False, Some err)),
               \<lparr>world = w2, trace = trace s @ [EvCommand cs, EvRun cs]\<rparr>)) \<and>
         (\<forall>out w1 w2. cmdError r cs (world s) = (None, w1) \<and> run r cs w1 = ((None, out), w2) \<longrightarrow>
            ExistSnap r fs snap s = ((True, None), \<lparr>world = w2, trace = trace s @ [EvCommand cs, EvRun cs]\<rparr>))"
proof -
  have cf: "cf = Exist_listing fs FS" and cs: "cs = Exist_listing (fs @ ''@'' @ snap) SNAP"
    using assms by (simp_all add: FS_def SNAP_def)
  have f1: "ExistFs r fs s =
              ((if sublist ''dataset does not exist'' (ErrorText err) then (False, None) else (False, Some err)),
               \<lparr>world = w1, trace = trace s @ [EvCommand cf]\<rparr>)"
    if "cmdError r cf (world s) = (Some err, w1)" for err w1
    using ExistFs_of_List [OF List_validation_error [OF cf that]] by simp
  have f2: "ExistFs r fs s =
              ((if sublist ''dataset does not exist'' (ErrorText err) then (False, None) else (False, Some err)),
               \<lparr>world = w2, trace = trace s @ [EvCommand cf, EvRun cf]\<rparr>)"
    if "cmdError r cf (world s) = (None, w1)" "run r cf w1 = ((Some err, out), w2)" for err out w1 w2
    using ExistFs_of_List [OF List_run_error [OF cf that]] by simp
  have f3: "ExistFs r fs s = ((True, None), \<lparr>world = w2, trace = trace s @ [EvCommand cf, EvRun cf]\<rparr>)"
    if "cmdError r cf (world s) = (None, w1)" "run r cf w1 = ((None, out), w2)" for out w1 w2
    using List_run_ok [OF cf that] ExistFs_of_List [of r fs s _ None] by auto
  have s1: "ExistSnap r fs snap s =
              ((if sublist ''dataset does not exist'' (ErrorText err) then (False, None) else (False, Some err)),
               \<lparr>world = w1, trace = trace s @ [EvCommand cs]\<rparr>)"
    if "cmdError r cs (world s) = (Some err, w1)" for err w1
    using ExistSnap_of_List [OF List_validation_error [OF cs that]] by simp
  have s2: "ExistSnap r fs snap s =
              ((if sublist ''dataset does not exist'' (ErrorText err) then (False, None) else (False, Some err)),
               \<lparr>world = w2, trace = trace s @ [EvCommand cs, EvRun cs]\<rparr>)"
    if "cmdError r cs (world s) = (None, w1)" "run r cs w1 = ((Some err, out), w2)" for err out w1 w2
    using ExistSnap_of_List [OF List_run_error [OF cs that]] by simp
  have s3: "ExistSnap r fs snap s = ((True, None), \<lparr>world = w2, trace = trace s @ [EvCommand cs, EvRun cs]\<rparr>)"
    if "cmdError r cs (world s) = (None, w1)" "run r cs w1 = ((None, out), w2)" for out w1 w2
    using List_run_ok [OF cs that] ExistSnap_of_List [of r fs snap s _ None] by auto
  from f1 f2 f3 s1 s2 s3 show ?thesis by blast
qed


theorem Exist_classifies_listing_error_witness:
  "fst (ExistFs missingBinary ''pool/a'' s0) = (False, Some (Error ''exec: zfs: executable file not found'')) \<and>
   fst (ExistFs poolRunner ''pool/missing'' s0) = (False, None) \<and>
   fst (ExistFs poolRunner ''pool/locked'' s0) =
     (False, Some (Error ''cannot open pool/locked: permission denied'')) \<and>
   ExistFs poolRunner ''pool/a'' s0 =
     ((True, None),
      \<lparr>world = (),
       trace = [EvCommand [''zfs'', ''list'', ''-Ho'', ''name'', ''-t'', ''filesystem'', ''pool/a''],
                EvRun [''zfs'', ''list'', ''-Ho'', ''name'', ''-t'', ''filesystem'', ''pool/a'']]\<rparr>) \<and>
   fst (ExistSnap missingBinary ''pool/a'' ''s1'' s0) =
     (False, Some (Error ''exec: zfs: executable file not found'')) \<and>
   ExistSnap poolRunner ''pool/a'' ''s9'' s0 =
     ((False, None),
      \<lparr>world = (),
       trace = [EvCommand [''zfs'', ''list'', ''-Ho'', ''name'', ''-t'', ''snapshot'', ''pool/a@s9''],
                EvRun [''zfs'', ''list'', ''-Ho'', ''name'', ''-t'', ''snapshot'', ''pool/a@s9'']]\<rparr>) \<and>
   ExistSnap poolRunner ''pool/missing'' ''s*'' s0 =
     ((True, None),
      \<lparr>world = (),
       trace = [EvCommand [''zfs'', ''list'', ''-Ho'', ''name'', ''-t'', ''filesystem''],
                EvRun [''zfs'', ''list'', ''-Ho'', ''name'', ''-t'', ''filesystem'']]\<rparr>)"
proof -
  note evalr = Exist_listing_def HasSuffix_def scripted_def noError_def s0_def
    Contains_sublist [symmetric] HasPrefix_def
  note broken = Exist_classifies_listing_error [OF refl refl, where r = missingBinary and s = s0]
  note pool = Exist_classifies_listing_error [OF refl refl, where r = poolRunner and s = s0]
  have a: "fst (ExistFs missingBinary ''pool/a'' s0) =
      (False, Some (Error ''exec: zfs: executable file not found''))"
    using broken [where fs = "''pool/a''", THEN conjunct1] by (simp add: missingBinary_def evalr)
  have b: "fst (ExistFs poolRunner ''pool/missing'' s0) = (False, None)"
    using pool [where fs = "''pool/missing''", THEN conjunct2, THEN conjunct1]
    by (simp add: poolRunner_def evalr)
  have c: "fst (ExistFs poolRunner ''pool/locked'' s0) =
     (False, Some (Error ''cannot open pool/locked: permission denied''))"
    using pool [where fs = "''pool/locked''", THEN conjunct2, THEN conjunct1]
    by (simp add: poolRunner_def evalr)
  have d: "ExistFs poolRunner ''pool/a'' s0 =
     ((True, None),
      \<lparr>world = (),
       trace = [EvCommand [''zfs'', ''list'', ''-Ho'', ''name'', ''-t'', ''filesystem'', ''pool/a''],
                EvRun [''zfs'', ''list'', ''-Ho'', ''name'', ''-t'', ''filesystem'', ''pool/a'']]\<rparr>)"
    using pool [where fs = "''pool/a''", THEN conjunct2, THEN conjunct2, THEN conjunct1]
    by (simp add: poolRunner_def evalr)
  have e: "fst (ExistSnap missingBinary ''pool/a'' ''s1'' s0) =
     (False, Some (Error ''exec: zfs: executable file not found''))"
    using broken [where fs = "''pool/a''" and snap = "''s1''",
        THEN conjunct2, THEN conjunct2, THEN conjunct2, THEN conjunct1]
    by (simp add: missingBinary_def evalr)
  have f: "ExistSnap poolRunner ''pool/a'' ''s9'' s0 =
     ((False, None),
      \<lparr>world = (),
       trace = [EvCommand [''zfs'', ''list'', ''-Ho'', ''name'', ''-t'', ''snapshot'', ''pool/a@s9''],
                EvRun [''zfs'', ''list'', ''-Ho'', ''name'', ''-t'', ''snapshot'', ''pool/a@s9'']]\<rparr>)"
    using pool [where fs = "''pool/a''" and snap = "''s9''",
        THEN conjunct2, THEN conjunct2, THEN conjunct2, THEN conjunct2, THEN conjunct1]
    by (simp add: poolRunner_def evalr)
  have g: "ExistSnap poolRunner ''pool/missing'' ''s*'' s0 =
     ((True, None),
      \<lparr>world = (),
       trace = [EvCommand [''zfs'', ''list'', ''-Ho'', ''name'', ''-t'', ''filesystem''],
                EvRun [''zfs'', ''list'', ''-Ho'', ''name'', ''-t'', ''filesystem'']]\<rparr>)"
    using pool [where fs = "''pool/missing''" and snap = "''s*''",
        THEN conjunct2, THEN conjunct2, THEN conjunct2, THEN conjunct2, THEN conjunct2]
    by (simp add: poolRunner_def evalr)
  from a b c d e f g show ?thesis by blast
qed

text \<open>
  C3, as the claim states it, fails for a target that ends in \<open>*\<close>: the listing of the
  snapshot target \<open>pool/missing@s*\<close> fails with \<open>dataset does not exist\<close>, yet
  \<open>ExistSnap\<close> answers \<open>true\<close>, having listed the file systems instead.
\<close>

theorem Exist_wildcard_target_counterexample:
  "fst (run poolRunner [''zfs'', ''list'', ''-Ho'', ''name'', ''-t'', ''snapshot'', ''pool/missing@s*''] ()) =
     (Some (Error ''cannot open: dataset does not exist''), '''') \<and>
   Contains ''cannot open: dataset does not exist'' DATANOE \<and>
   ExistSnap poolRunner ''pool/missing'' ''s*'' s0 =
     ((True, None),
      \<lparr>world = (),
       trace = [EvCommand [''zfs'', ''list'', ''-Ho'', ''name'', ''-t'', ''filesystem''],
                EvRun [''zfs'', ''list'', ''-Ho'', ''name'', ''-t'', ''filesystem'']]\<rparr>)"
  by (simp add: ExistSnap_def List_wildcard List_plain poolRunner_eval DATANOE_def HasPrefix_def
      TrimRight_def)

text \<open>
  C4. For a pattern that ends in \<open>*\<close>, \<open>List\<close> returns the entries of the full listing of
  file systems (no target, not recursive) that contain the pattern without its trailing
  \<open>*\<close>, in the listing's order, whatever kind and whatever recursion were asked for; the
  command it runs is \<open>list -Ho name -t filesystem\<close>, so no snapshot is ever looked at. An
  error of the full listing is returned as it is.
\<close>

theorem List_wildcard_filters_filesystems:
  assumes "HasSuffix fs ''*''"
  shows "(\<forall>full s1. List r '''' FS False s = ((full, None), s1) \<longrightarrow>
            List r fs fsType recursive s =
              ((filter (\<lambda>entry. sublist (TrimRight fs ''*'') entry) full, None), s1)) \<and>
         (\<forall>full err s1. List r '''' FS False s = ((full, Some err), s1) \<longrightarrow>
            List r fs fsType recursive s = (([], Some err), s1)) \<and>
         take 1 (new_events s (snd (List r fs fsType recursive s))) =
           [EvCommand [''zfs'', ''list'', ''-Ho'', ''name'', ''-t'', ''filesystem'']] \<and>
         (\<forall>p. fs = p @ ''*'' \<and> \<not> HasSuffix p ''*'' \<longrightarrow> TrimRight fs ''*'' = p)"
proof -
  have inner: "\<not> HasSuffix '''' ''*''"
    by (simp add: HasSuffix_def)
  have st: "snd (List r fs fsType recursive s) = snd (List r '''' FS False s)"
    using assms by (simp add: List_wildcard split: prod.splits option.splits)
  have ev: "take 1 (new_events s (snd (List r fs fsType recursive s))) =
           [EvCommand [''zfs'', ''list'', ''-Ho'', ''name'', ''-t'', ''filesystem'']]"
    using List_plain_first_event [OF inner, of s r FS False]
    by (simp add: st List_args_def FS_def)
  have ok: "\<forall>full s1. List r '''' FS False s = ((full, None), s1) \<longrightarrow>
            List r fs fsType recursive s =
              ((filter (\<lambda>entry. sublist (TrimRight fs ''*'') entry) full, None), s1)"
    using assms by (simp add: List_wildcard Contains_sublist)
  have bad: "\<forall>full err s1. List r '''' FS False s = ((full, Some err), s1) \<longrightarrow>
            List r fs fsType recursive s = (([], Some err), s1)"
    using assms by (simp add: List_wildcard)
  have strip: "\<forall>p. fs = p @ ''*'' \<and> \<not> HasSuffix p ''*'' \<longrightarrow> TrimRight fs ''*'' = p"
    using TrimRight_star_snoc by blast
  from ok bad ev strip show ?thesis by blast
qed

theorem List_wildcard_filters_filesystems_witness:
  "HasSuffix ''pool/a*'' ''*'' \<and>
   List poolRunner '''' FS False s0 =
     (([''pool'', ''pool/a'', ''pool/ab'', ''tank''], None),
      \<lparr>world = (),
       trace = [EvCommand [''zfs'', ''list'', ''-Ho'', ''name'', ''-t'', ''filesystem''],
                EvRun [''zfs'', ''list'', ''-Ho'', ''name'', ''-t'', ''filesystem'']]\<rparr>) \<and>
   List poolRunner ''pool/a*'' SNAP True s0 =
     (([''pool/a'', ''pool/ab''], None),
      \<lparr>world = (),
       trace = [EvCommand [''zfs'', ''list'', ''-Ho'', ''name'', ''-t'', ''filesystem''],
                EvRun [''zfs'', ''list'', ''-Ho'', ''name'', ''-t'', ''filesystem'']]\<rparr>)"
proof -
  have wildcard: "HasSuffix ''pool/a*'' ''*''"
    by (simp add: HasSuffix_def)
  have full: "List poolRunner '''' FS False s0 =
     (([''pool'', ''pool/a'', ''pool/ab'', ''tank''], None),
      \<lparr>world = (),
       trace = [EvCommand [''zfs'', ''list'', ''-Ho'', ''name'', ''-t'', ''filesystem''],
                EvRun [''zfs'', ''list'', ''-Ho'', ''name'', ''-t'', ''filesystem'']]\<rparr>)"
    by (simp add: List_plain poolRunner_eval)
  have stripped: "TrimRight ''pool/a*'' ''*'' = ''pool/a''"
    by (simp add: TrimRight_def)
  have "List poolRunner ''pool/a*'' SNAP True s0 =
     (([''pool/a'', ''pool/ab''], None),
      \<lparr>world = (),
       trace = [EvCommand [''zfs'', ''list'', ''-Ho'', ''name'', ''-t'', ''filesystem''],
                EvRun [''zfs'', ''list'', ''-Ho'', ''name'', ''-t'', ''filesystem'']]\<rparr>)"
    using List_wildcard_filters_filesystems [OF wildcard, where r = poolRunner and s = s0
        and fsType = SNAP and recursive = True, THEN conjunct1, rule_format, OF full]
    by (simp add: stripped Contains_sublist [symmetric] HasPrefix_def)
  with wildcard full show ?thesis by blast
qed

section \<open>RecentSnap: what it returns\<close>

lemma length_read_all [simp]: "length (read_all r property snaps s) = length snaps"
  by (induction snaps arbitrary: s) (auto split: prod.splits)

lemma RecentSnap_loop_closed_form:
  assumes "property \<noteq> ''''"
  shows "RecentSnap_loop r property snaps s =
           (let vals = read_all r property snaps s; n = length (unmatched_reads vals)
            in ((if n < length snaps \<and> vals ! n = (''true'', None) then (snaps ! n, None) else ('''', None)),
                state_after_reads r property (take (Suc n) snaps) s))"
proof (induction snaps arbitrary: s)
  case Nil
  show ?case by (simp add: unmatched_reads_def)
next
  case (Cons snap rest)
  obtain out e s1 where read: "Property r snap property s = ((out, e), s1)"
    by (cases "Property r snap property s") auto
  show ?case
  proof (cases "e = None \<and> out \<noteq> ''true''")
    case True
    with read assms Cons.IH [of s1] show ?thesis
      by (simp add: unmatched_reads_def Let_def)
  next
    case False
    with read assms show ?thesis
      by (cases e) (auto simp: unmatched_reads_def Let_def)
  qed
qed

lemma unmatched_reads_stop:
  assumes "n = length (unmatched_reads vals)" and "n < length vals"
  shows "vals ! n = (''true'', None) \<or> snd (vals ! n) \<noteq> None"
proof -
  have "\<not> (snd (vals ! n) = None \<and> fst (vals ! n) \<noteq> ''true'')"
    using assms nth_length_takeWhile [of "\<lambda>v. snd v = None \<and> fst v \<noteq> ''true''" vals]
    by (simp add: unmatched_reads_def)
  then show ?thesis by (cases "vals ! n") auto
qed


text \<open>
  C1, as the code has it. For a non-empty property key and a listing that succeeded,
  \<open>RecentSnap\<close> reads the property of the listed candidates in order, going past every
  candidate whose read succeeds with a value other than \<open>true\<close>. It returns the first
  candidate whose value is the text \<open>true\<close>; a candidate whose read fails ends the scan,
  and the result is the empty string with a \<open>nil\<close> error; when the candidates run out the
  result is the empty string with a \<open>nil\<close> error. In every case the candidates after the
  one the scan stopped at are never read.
\<close>

theorem RecentSnap_first_true_candidate:
  assumes "c = [''zfs'', ''list'', ''-Hro'', ''name'', ''-t'', ''snapshot'', ''-S'', ''creation'', snap]"
    and "property \<noteq> ''''"
    and "cmdError r c (world s) = (None, w1)"
    and "run r c w1 = ((None, stdout), w2)"
    and "snaps = Split stdout LF"
    and "listed = \<lparr>world = w2, trace = trace s @ [EvCommand c, EvRun c]\<rparr>"
    and "vals = read_all r property snaps listed"
    and "n = length (unmatched_reads vals)"
  shows "(n < length snaps \<and> vals ! n = (''true'', None) \<longrightarrow>
            fst (RecentSnap r snap property s) = (snaps ! n, None)) \<and>
         (n < length snaps \<and> snd (vals ! n) \<noteq> None \<longrightarrow>
            fst (RecentSnap r snap property s) = ('''', None)) \<and>
         (n = length snaps \<longrightarrow> fst (RecentSnap r snap property s) = ('''', None)) \<and>
         (n < length snaps \<longrightarrow> vals ! n = (''true'', None) \<or> snd (vals ! n) \<noteq> None) \<and>
         snd (RecentSnap r snap property s) = state_after_reads r property (take (Suc n) snaps) listed"
proof -
  have loop: "RecentSnap r snap property s = RecentSnap_loop r property snaps listed"
    using assms(1,3,4,5,6) by (simp add: RecentSnap_def Command_def Run_def Let_def)
  have closed: "RecentSnap r snap property s =
      ((if n < length snaps \<and> vals ! n = (''true'', None) then (snaps ! n, None) else ('''', None)),
       state_after_reads r property (take (Suc n) snaps) listed)"
    using RecentSnap_loop_closed_form [OF assms(2), of r snaps listed] assms(7,8)
    by (simp add: loop Let_def)
  have stop: "n < length snaps \<longrightarrow> vals ! n = (''true'', None) \<or> snd (vals ! n) \<noteq> None"
    using unmatched_reads_stop [OF assms(8)] assms(7) by simp
  from stop show ?thesis
    by (auto simp: closed)
qed


theorem RecentSnap_first_true_candidate_witness:
  "fst (RecentSnap keepRunner ''pool/a@'' ''autobackup'' s0) = (''pool/a@s1'', None) \<and>
   fst (RecentSnap poolRunner ''pool/a@'' ''autobackup'' s0) = ('''', None) \<and>
   new_events s0 (snd (RecentSnap poolRunner ''pool/a@'' ''autobackup'' s0)) =
     [EvCommand [''zfs'', ''list'', ''-Hro'', ''name'', ''-t'', ''snapshot'', ''-S'', ''creation'', ''pool/a@''],
      EvRun [''zfs'', ''list'', ''-Hro'', ''name'', ''-t'', ''snapshot'', ''-S'', ''creation'', ''pool/a@''],
      EvCommand [''zfs'', ''get'', ''-Ho'', ''value'', ''autobackup'', ''pool/a@s2''],
      EvRun [''zfs'', ''get'', ''-Ho'', ''value'', ''autobackup'', ''pool/a@s2'']] \<and>
   fst (RecentSnap dashRunner ''pool/a@'' ''autobackup'' s0) = ('''', None)"
proof -
  let ?c = "[''zfs'', ''list'', ''-Hro'', ''name'', ''-t'', ''snapshot'', ''-S'', ''creation'', ''pool/a@'']"
  note evalr = Property_def Command_def Run_def Let_def scripted_def noError_def s0_def
    unmatched_reads_def new_events_def
  have key: "''autobackup'' \<noteq> ''''"
    by simp
  have found: "fst (RecentSnap keepRunner ''pool/a@'' ''autobackup'' s0) = (''pool/a@s1'', None)"
    using RecentSnap_first_true_candidate
      [OF refl key _ _ refl refl refl refl, where r = keepRunner and s = s0 and snap = "''pool/a@''"
        and ?w1.0 = "()" and ?w2.0 = "()" and stdout = "''pool/a@s2'' @ [LF] @ ''pool/a@s1'' @ [LF]",
        THEN conjunct1]
    by (simp add: keepRunner_def evalr)
  note failed_read = RecentSnap_first_true_candidate
      [OF refl key _ _ refl refl refl refl, where r = poolRunner and s = s0 and snap = "''pool/a@''"
        and ?w1.0 = "()" and ?w2.0 = "()" and stdout = "''pool/a@s2'' @ [LF] @ ''pool/a@s1'' @ [LF]"]
  have failed: "fst (RecentSnap poolRunner ''pool/a@'' ''autobackup'' s0) = ('''', None)"
    using failed_read [THEN conjunct2, THEN conjunct1]
    by (simp add: poolRunner_def evalr)
  have stopped: "new_events s0 (snd (RecentSnap poolRunner ''pool/a@'' ''autobackup'' s0)) =
     [EvCommand ?c, EvRun ?c,
      EvCommand [''zfs'', ''get'', ''-Ho'', ''value'', ''autobackup'', ''pool/a@s2''],
      EvRun [''zfs'', ''get'', ''-Ho'', ''value'', ''autobackup'', ''pool/a@s2'']]"
    using failed_read [THEN conjunct2, THEN conjunct2, THEN conjunct2, THEN conjunct2]
    by (simp add: poolRunner_def evalr)
  have exhausted: "fst (RecentSnap dashRunner ''pool/a@'' ''autobackup'' s0) = ('''', None)"
    using RecentSnap_first_true_candidate
      [OF refl key _ _ refl refl refl refl, where r = dashRunner and s = s0 and snap = "''pool/a@''"
        and ?w1.0 = "()" and ?w2.0 = "()" and stdout = "''pool/a@s2'' @ [LF] @ ''pool/a@s1''",
        THEN conjunct2, THEN conjunct2, THEN conjunct1]
    by (simp add: dashRunner_def evalr)
  from found failed stopped exhausted show ?thesis by blast
qed

text \<open>
  C1, as the claim states it, fails: the scan does not go on after a property read that
  fails. With the snapshots \<open>pool/a@s2\<close> (newest, its property cannot be read) and
  \<open>pool/a@s1\<close> (its property reads \<open>true\<close>), \<open>RecentSnap\<close> returns the empty string
  after the first read and never asks for the property of \<open>pool/a@s1\<close>, where the scan
  that skips the failed candidate returns \<open>pool/a@s1\<close>.
\<close>

theorem RecentSnap_stops_at_failed_read:
  "RecentSnap poolRunner ''pool/a@'' ''autobackup'' s0 =
     (('''', None),
      \<lparr>world = (),
       trace = [EvCommand [''zfs'', ''list'', ''-Hro'', ''name'', ''-t'', ''snapshot'', ''-S'', ''creation'', ''pool/a@''],
                EvRun [''zfs'', ''list'', ''-Hro'', ''name'', ''-t'', ''snapshot'', ''-S'', ''creation'', ''pool/a@''],
                EvCommand [''zfs'', ''get'', ''-Ho'', ''value'', ''autobackup'', ''pool/a@s2''],
                EvRun [''zfs'', ''get'', ''-Ho'', ''value'', ''autobackup'', ''pool/a@s2'']]\<rparr>) \<and>
   fst (Property poolRunner ''pool/a@s2'' ''autobackup'' s0) = ('''', Some (Error ''exit status 1'')) \<and>
   fst (Property poolRunner ''pool/a@s1'' ''autobackup'' s0) = (''true'', None) \<and>
   fst (spec_mostRecent_loop poolRunner ''autobackup'' [''pool/a@s2'', ''pool/a@s1'', ''''] s0) =
     (''pool/a@s1'', None)"
  by (simp add: RecentSnap_def Property_def poolRunner_def scripted_def noError_def s0_def
      Command_def Run_def Let_def)

text \<open>Where no property read fails, the loop is the scan the specification describes.\<close>

lemma RecentSnap_loop_agrees_without_failures:
  assumes "\<forall>snap s. snd (fst (Property r snap property s)) = None"
  shows "RecentSnap_loop r property snaps s = spec_mostRecent_loop r property snaps s"
proof (induction snaps arbitrary: s)
  case Nil
  show ?case by simp
next
  case (Cons snap rest)
  obtain out e s1 where read: "Property r snap property s = ((out, e), s1)"
    by (cases "Property r snap property s") auto
  with assms have "e = None"
    by (metis fst_conv snd_conv)
  with read Cons.IH show ?case by simp
qed

end
